theory Spec2Isabelle
  imports Main "HOL-Library.Sublist"
begin

section \<open>JavaScript values\<close>

text \<open>
  The values that reach the API client are JSON documents (the body of a provider
  response) and the arguments a caller hands over. They are modelled by one datatype:
  \<open>undefined\<close>, \<open>null\<close>, booleans, numbers, strings, arrays and plain objects.
  Numbers are integers (counts and line numbers), a string is a list of code units
  below 256 (ASCII and Latin-1), and an object is the list of its own properties, the
  first binding of a key being the one the object holds.
\<close>

datatype jsval =
    JUndefined
  | JNull
  | JBool bool
  | JNum int
  | JStr string
  | JArr "jsval list"
  | JObj "(string \<times> jsval) list"

text \<open>
  What a \<open>throw\<close> carries. Every failed property read, method call or conversion of
  the code below is a \<open>TypeError\<close>; \<open>JsError\<close> is \<open>new Error(message)\<close>;
  \<open>AbortError\<close> is what \<open>fetch\<close> rejects with when its signal fires,
  \<open>NetworkError\<close> any other rejection of \<open>fetch\<close>, \<open>SyntaxError\<close> a body that is
  not JSON, and \<open>ThrownUndefined\<close> is \<open>throw undefined\<close>.
\<close>

datatype js_error =
    TypeError
  | JsError string
  | AbortError
  | NetworkError string
  | SyntaxError
  | ThrownUndefined

definition bindE :: "'e + 'a \<Rightarrow> ('a \<Rightarrow> 'e + 'b) \<Rightarrow> 'e + 'b" where
  "bindE m f = (case m of Inl e \<Rightarrow> Inl e | Inr v \<Rightarrow> f v)"

text \<open>\<open>xs.map(f)\<close> and \<open>xs.filter(p)\<close> on an array, with a callback that may throw:
  the first exception ends the traversal.\<close>

fun mapE :: "('a \<Rightarrow> 'e + 'b) \<Rightarrow> 'a list \<Rightarrow> 'e + 'b list" where
  "mapE f [] = Inr []"
| "mapE f (x # xs) = bindE (f x) (\<lambda>y. bindE (mapE f xs) (\<lambda>ys. Inr (y # ys)))"

fun filterE :: "('a \<Rightarrow> 'e + bool) \<Rightarrow> 'a list \<Rightarrow> 'e + 'a list" where
  "filterE p [] = Inr []"
| "filterE p (x # xs) =
     bindE (p x) (\<lambda>b. bindE (filterE p xs) (\<lambda>ys. Inr (if b then x # ys else ys)))"

text \<open>Truthiness: what \<open>!v\<close> and \<open>v || w\<close> test.\<close>

fun truthy :: "jsval \<Rightarrow> bool" where
  "truthy JUndefined = False"
| "truthy JNull = False"
| "truthy (JBool b) = b"
| "truthy (JNum n) = (n \<noteq> 0)"
| "truthy (JStr s) = (s \<noteq> [])"
| "truthy (JArr xs) = True"
| "truthy (JObj kvs) = True"

definition js_or :: "jsval \<Rightarrow> jsval \<Rightarrow> jsval" where
  "js_or a b = (if truthy a then a else b)"

text \<open>
  The property read \<open>v.k\<close>, for the property names the source uses (\<open>issues\<close>,
  \<open>title\<close>, \<open>severity\<close>, \<open>length\<close>, ...): none of them is inherited from a
  prototype, so an object answers with its own property or \<open>undefined\<close>, an array
  and a string know their \<open>length\<close>, and reading from \<open>undefined\<close> or \<open>null\<close>
  throws.
\<close>

fun get_prop :: "jsval \<Rightarrow> string \<Rightarrow> js_error + jsval" where
  "get_prop JUndefined k = Inl TypeError"
| "get_prop JNull k = Inl TypeError"
| "get_prop (JObj kvs) k = Inr (case map_of kvs k of None \<Rightarrow> JUndefined | Some v \<Rightarrow> v)"
| "get_prop (JArr xs) k = Inr (if k = ''length'' then JNum (int (length xs)) else JUndefined)"
| "get_prop (JStr s) k = Inr (if k = ''length'' then JNum (int (length s)) else JUndefined)"
| "get_prop (JBool b) k = Inr JUndefined"
| "get_prop (JNum n) k = Inr JUndefined"

text \<open>
  \<open>String.prototype.toLowerCase\<close> on code units below 256: \<open>A\<close>..\<open>Z\<close> and the
  Latin-1 capitals (0xC0..0xDE without the multiplication sign 0xD7) move up by 32.
  Called on anything but a string, \<open>v.toLowerCase()\<close> throws: the receiver is
  \<open>undefined\<close> or \<open>null\<close>, or it has no callable property of that name.
\<close>

definition lower_char :: "char \<Rightarrow> char" where
  "lower_char c =
     (let n = (of_char c :: nat)
      in if (65 \<le> n \<and> n \<le> 90) \<or> (192 \<le> n \<and> n \<le> 222 \<and> n \<noteq> 215)
         then char_of (n + 32) else c)"

fun toLowerCase :: "jsval \<Rightarrow> js_error + string" where
  "toLowerCase (JStr s) = Inr (map lower_char s)"
| "toLowerCase _ = Inl TypeError"

text \<open>
  \<open>String.prototype.trim\<close>: the white space and line terminators below 256 are
  TAB, LF, VT, FF, CR, SP and NBSP.
\<close>

definition js_space :: "char \<Rightarrow> bool" where
  "js_space c = ((of_char c :: nat) \<in> {9, 10, 11, 12, 13, 32, 160})"

definition trim :: "string \<Rightarrow> string" where
  "trim s = rev (dropWhile js_space (rev (dropWhile js_space s)))"

text \<open>
  The conversion to a string that a template literal applies to \<open>${v}\<close>. A plain
  object answers \<open>[object Object]\<close> through the inherited \<open>toString\<close>; one that
  carries an own property \<open>toString\<close> (never callable in this value space) has no
  usable conversion left and the literal throws a \<open>TypeError\<close>. An array joins the
  conversions of its elements with commas, \<open>undefined\<close> and \<open>null\<close> elements giving
  the empty string. An integer is printed in full decimal, which is what JavaScript
  prints for a whole number of magnitude up to \<open>2^53\<close>; the digits of a larger
  number are outside what the model reproduces.
\<close>

fun stringable :: "jsval \<Rightarrow> bool" where
  "stringable (JArr xs) = (\<forall>x \<in> set xs. stringable x)"
| "stringable (JObj kvs) = (map_of kvs ''toString'' = None)"
| "stringable _ = True"

fun digits :: "nat \<Rightarrow> string" where
  "digits n =
     (if n < 10 then [''0123456789'' ! n]
      else digits (n div 10) @ [''0123456789'' ! (n mod 10)])"

definition show_int :: "int \<Rightarrow> string" where
  "show_int i = (if i < 0 then CHR ''-'' # digits (nat (- i)) else digits (nat i))"

fun join_comma :: "string list \<Rightarrow> string" where
  "join_comma [] = []"
| "join_comma [s] = s"
| "join_comma (s # t # ss) = s @ '','' @ join_comma (t # ss)"

fun js_string :: "jsval \<Rightarrow> string" where
  "js_string JUndefined = ''undefined''"
| "js_string JNull = ''null''"
| "js_string (JBool b) = (if b then ''true'' else ''false'')"
| "js_string (JNum n) = show_int n"
| "js_string (JStr s) = s"
| "js_string (JArr xs) =
     join_comma (map (\<lambda>x. if x = JUndefined \<or> x = JNull then [] else js_string x) xs)"
| "js_string (JObj kvs) = ''[object Object]''"

definition toString :: "jsval \<Rightarrow> js_error + string" where
  "toString v = (if stringable v then Inr (js_string v) else Inl TypeError)"

section \<open>The report shape\<close>

text \<open>
  One finding and one report, as \<open>transformResponse\<close> and \<open>getMockAnalysisData\<close>
  build them. A field holds whatever value the expression that fills it yields, so
  all but \<open>severity\<close> (always the result of \<open>toLowerCase\<close>) are values.
\<close>

record finding =
  title :: jsval
  severity :: string
  description :: jsval
  location :: jsval
  code :: jsval
  suggestion :: jsval

record stats =
  issuesCount :: jsval
  securityCount :: jsval
  optimizationsCount :: jsval
  qualityScore :: string

record report =
  issues :: "finding list"
  security :: "finding list"
  performance :: "finding list"
  optimized :: jsval
  stats :: stats

section \<open>The response normalizer (api-service.js)\<close>

text \<open>\<open>(apiResponse.k || [])\<close>\<close>

definition or_empty :: "jsval \<Rightarrow> string \<Rightarrow> js_error + jsval" where
  "or_empty apiResponse k = bindE (get_prop apiResponse k) (\<lambda>v. Inr (js_or v (JArr [])))"

text \<open>
  The elements \<open>v.map\<close> and \<open>v.filter\<close> run over: only an array has these
  methods. The spread \<open>...v\<close> also accepts a string, which yields its characters.
\<close>

fun array_elems :: "jsval \<Rightarrow> js_error + jsval list" where
  "array_elems (JArr xs) = Inr xs"
| "array_elems _ = Inl TypeError"

fun spread :: "jsval \<Rightarrow> js_error + jsval list" where
  "spread (JArr xs) = Inr xs"
| "spread (JStr s) = Inr (map (\<lambda>c. JStr [c]) s)"
| "spread _ = Inl TypeError"

text \<open>The callback of \<open>transformIssues\<close>, field by field in the order of the object
  literal.\<close>

definition transformIssue :: "jsval \<Rightarrow> js_error + finding" where
  "transformIssue issue =
     bindE (get_prop issue ''title'') (\<lambda>t.
     bindE (get_prop issue ''message'') (\<lambda>m.
     bindE (get_prop issue ''severity'') (\<lambda>sev.
     bindE (toLowerCase sev) (\<lambda>sev'.
     bindE (get_prop issue ''description'') (\<lambda>d.
     bindE (get_prop issue ''details'') (\<lambda>dt.
     bindE (get_prop issue ''location'') (\<lambda>loc.
     bindE (if truthy loc then Inr loc
            else bindE (get_prop issue ''line'') (\<lambda>ln.
                 bindE (toString (js_or ln (JStr ''Unknown''))) (\<lambda>s.
                 Inr (JStr (''Line '' @ s))))) (\<lambda>loc'.
     bindE (get_prop issue ''codeSnippet'') (\<lambda>cs.
     bindE (get_prop issue ''recommendation'') (\<lambda>r.
     bindE (get_prop issue ''fix'') (\<lambda>f.
     Inr \<lparr> title = js_or t m,
           severity = sev',
           description = js_or d dt,
           location = loc',
           code = js_or cs (JStr ''''),
           suggestion = js_or (js_or r f) (JStr '''') \<rparr>)))))))))))"

definition transformIssues :: "jsval \<Rightarrow> js_error + finding list" where
  "transformIssues rawIssues = bindE (array_elems rawIssues) (mapE transformIssue)"

text \<open>
  \<open>countSeverity\<close>: the three collections are spread into one array, which is
  filtered by the lower-cased severity of each element.
\<close>

definition countSeverity :: "jsval \<Rightarrow> string \<Rightarrow> js_error + nat" where
  "countSeverity apiResponse sev =
     bindE (or_empty apiResponse ''issues'') (\<lambda>a.
     bindE (spread a) (\<lambda>xs.
     bindE (or_empty apiResponse ''security'') (\<lambda>b.
     bindE (spread b) (\<lambda>ys.
     bindE (or_empty apiResponse ''performance'') (\<lambda>c.
     bindE (spread c) (\<lambda>zs.
     bindE (filterE (\<lambda>issue.
              bindE (get_prop issue ''severity'') (\<lambda>s.
              bindE (toLowerCase s) (\<lambda>l. Inr (l = sev))))
            (xs @ ys @ zs)) (\<lambda>hits.
     Inr (length hits))))))))"

text \<open>
  The chain of \<open>if\<close>s that ends \<open>calculateQualityScore\<close>, on the two numbers it
  reads. Both are lengths of arrays, hence natural numbers.
\<close>

definition scoreOf :: "nat \<Rightarrow> nat \<Rightarrow> string" where
  "scoreOf highSeverity totalIssues =
     (if totalIssues = 0 then ''A+''
      else if highSeverity = 0 \<and> totalIssues \<le> 2 then ''A''
      else if highSeverity = 0 \<and> totalIssues \<le> 5 then ''B+''
      else if highSeverity \<le> 1 \<and> totalIssues \<le> 8 then ''B''
      else if highSeverity \<le> 2 then ''C+''
      else ''C'')"

text \<open>
  The \<open>length\<close> of a collection as a number. \<open>calculateQualityScore\<close> adds three of
  them before it calls \<open>countSeverity\<close>, and reads the sum only afterwards; by then
  \<open>countSeverity\<close> has thrown unless all three collections are arrays
  (\<open>countSeverity_arrays\<close> below), so the value given to anything else is never
  looked at.
\<close>

fun length_of :: "jsval \<Rightarrow> nat" where
  "length_of (JArr xs) = length xs"
| "length_of (JStr s) = length s"
| "length_of _ = 0"

definition calculateQualityScore :: "jsval \<Rightarrow> js_error + string" where
  "calculateQualityScore apiResponse =
     bindE (or_empty apiResponse ''issues'') (\<lambda>a.
     bindE (or_empty apiResponse ''security'') (\<lambda>b.
     bindE (or_empty apiResponse ''performance'') (\<lambda>c.
     let totalIssues = length_of a + length_of b + length_of c in
     bindE (countSeverity apiResponse ''high'') (\<lambda>highSeverity.
     bindE (countSeverity apiResponse ''medium'') (\<lambda>mediumSeverity.
     Inr (scoreOf highSeverity totalIssues))))))"

definition transformResponse :: "jsval \<Rightarrow> js_error + report" where
  "transformResponse apiResponse =
     bindE (or_empty apiResponse ''issues'') (\<lambda>a.
     bindE (transformIssues a) (\<lambda>issues'.
     bindE (or_empty apiResponse ''security'') (\<lambda>b.
     bindE (transformIssues b) (\<lambda>security'.
     bindE (or_empty apiResponse ''performance'') (\<lambda>c.
     bindE (transformIssues c) (\<lambda>performance'.
     bindE (get_prop apiResponse ''optimizedCode'') (\<lambda>oc.
     bindE (get_prop a ''length'') (\<lambda>n1.
     bindE (get_prop b ''length'') (\<lambda>n2.
     bindE (get_prop c ''length'') (\<lambda>n3.
     bindE (calculateQualityScore apiResponse) (\<lambda>q.
     Inr \<lparr> issues = issues',
           security = security',
           performance = performance',
           optimized = js_or oc (JStr ''''),
           stats = \<lparr> issuesCount = n1,
                     securityCount = n2,
                     optimizationsCount = n3,
                     qualityScore = q \<rparr> \<rparr>)))))))))))"

section \<open>The request dispatcher (api-service.js)\<close>

text \<open>
  The instance of \<open>CodeAnalysisAPI\<close>: the four fields its constructor copies from
  \<open>config.api\<close>. The numeric settings are whole numbers. The model multiplies them
  exactly; the code multiplies floating-point numbers, which is exact as long as the
  product stays within \<open>Number.MAX_SAFE_INTEGER\<close> and rounds (up to \<open>Infinity\<close>)
  beyond it. A statement that compares delays therefore carries that bound.
\<close>

record retryConfig =
  maxRetries :: int
  retryDelay :: int

record client =
  baseUrl :: string
  apiKey :: string
  timeout :: int
  retryConfig :: retryConfig


text \<open>The values of config.js, with the placeholder key it falls back to.\<close>

definition CONFIG :: client where
  "CONFIG =
     \<lparr> baseUrl = ''https://api.yourservice.com/v1'',
       apiKey = ''your-api-key-here'',
       timeout = 30000,
       retryConfig = \<lparr> maxRetries = 3, retryDelay = 1000 \<rparr> \<rparr>"

text \<open>
  What \<open>makeRequest\<close> hands to \<open>fetch\<close> and what it gets back. The body is kept as
  the value that \<open>JSON.stringify\<close> serialises. The provider is a function
  \<open>fetch req k\<close>: the outcome of the call made in iteration \<open>k\<close> of the retry loop,
  either a rejection (network failure, or the abort that the timer of
  \<open>this.timeout\<close> milliseconds triggers) or a response, whose \<open>json()\<close> may itself
  reject.
\<close>

record options =
  httpMethod :: string
  body :: jsval

record request =
  url :: string
  headers :: "(string \<times> string) list"
  req_options :: options
  abortAfter :: int

record response =
  ok :: bool
  status :: int
  statusText :: string
  json :: "js_error + jsval"

type_synonym provider = "request \<Rightarrow> nat \<Rightarrow> js_error + response"

text \<open>
  What the dispatcher does besides returning: the calls of \<open>fetch\<close> it made, the
  arguments of its calls of \<open>this.delay\<close> in order, and the errors written with
  \<open>console.error\<close>.
\<close>

record trace =
  attempts :: nat
  delays :: "int list"
  logged :: "js_error list"

text \<open>The body of the \<open>try\<close> block in the loop of \<open>makeRequest\<close>.\<close>

definition tryFetch :: "provider \<Rightarrow> request \<Rightarrow> nat \<Rightarrow> js_error + jsval" where
  "tryFetch fetch req attempt =
     bindE (fetch req attempt) (\<lambda>resp.
     if \<not> ok resp
     then Inl (JsError (''HTTP '' @ show_int (status resp) @ '': '' @ statusText resp))
     else json resp)"

function retryLoop ::
  "client \<Rightarrow> provider \<Rightarrow> request \<Rightarrow> nat \<Rightarrow> js_error option \<Rightarrow> trace
     \<Rightarrow> (js_error + jsval) \<times> trace"
where
  "retryLoop this fetch req attempt lastError tr =
     (if int attempt \<le> maxRetries (retryConfig this) then
        (case tryFetch fetch req attempt of
           Inr v \<Rightarrow> (Inr v, tr\<lparr>attempts := Suc (attempts tr)\<rparr>)
         | Inl e \<Rightarrow>
             retryLoop this fetch req (Suc attempt) (Some e)
               (if int attempt < maxRetries (retryConfig this)
                then tr\<lparr>attempts := Suc (attempts tr),
                        delays := delays tr
                          @ [retryDelay (retryConfig this) * (int attempt + 1)]\<rparr>
                else tr\<lparr>attempts := Suc (attempts tr)\<rparr>))
      else (Inl (case lastError of None \<Rightarrow> ThrownUndefined | Some e \<Rightarrow> e), tr))"
  by pat_completeness auto
termination
  by (relation "measure (\<lambda>(this, fetch, req, attempt, lastError, tr).
        nat (maxRetries (retryConfig this) + 1 - int attempt))") auto

declare retryLoop.simps [simp del]

text \<open>The \<open>url\<close> and \<open>requestOptions\<close> that \<open>makeRequest\<close> computes before its loop.\<close>

definition requestOf :: "client \<Rightarrow> string \<Rightarrow> options \<Rightarrow> request" where
  "requestOf this endpoint opts =
     \<lparr> url = baseUrl this @ endpoint,
       headers = [(''Content-Type'', ''application/json''),
                  (''Authorization'', ''Bearer '' @ apiKey this),
                  (''X-Client-Version'', ''1.0.0'')],
       req_options = opts,
       abortAfter = timeout this \<rparr>"

definition makeRequest ::
  "client \<Rightarrow> provider \<Rightarrow> string \<Rightarrow> options \<Rightarrow> trace \<Rightarrow> (js_error + jsval) \<times> trace"
where
  "makeRequest this fetch endpoint opts tr =
     retryLoop this fetch (requestOf this endpoint opts) 0 None tr"

text \<open>The options \<open>analyzeCode\<close> passes: the method and the payload.\<close>

definition analyzeOptions :: "jsval \<Rightarrow> jsval \<Rightarrow> options" where
  "analyzeOptions codeArg language =
     \<lparr> httpMethod = ''POST'',
       body = JObj [(''code'', codeArg),
                    (''language'', language),
                    (''analysisOptions'',
                       JObj [(''checkBugs'', JBool True),
                             (''checkSecurity'', JBool True),
                             (''checkPerformance'', JBool True),
                             (''generateOptimized'', JBool True)])] \<rparr>"

definition analyzeCode ::
  "client \<Rightarrow> provider \<Rightarrow> jsval \<Rightarrow> jsval \<Rightarrow> trace \<Rightarrow> (js_error + report) \<times> trace"
where
  "analyzeCode this fetch codeArg language tr =
     (case makeRequest this fetch ''/analyze'' (analyzeOptions codeArg language) tr of
        (Inl e, tr') \<Rightarrow>
          (Inl (JsError ''Failed to analyze code. Please try again.''),
           tr'\<lparr>logged := logged tr' @ [e]\<rparr>)
      | (Inr resp, tr') \<Rightarrow>
          (case transformResponse resp of
             Inl e \<Rightarrow>
               (Inl (JsError ''Failed to analyze code. Please try again.''),
                tr'\<lparr>logged := logged tr' @ [e]\<rparr>)
           | Inr rep \<Rightarrow> (Inr rep, tr')))"

section \<open>Input validation (api-service.js)\<close>

record validation =
  isValid :: bool
  errors :: "string list"

definition supportedLanguages :: "string list" where
  "supportedLanguages =
     [''javascript'', ''python'', ''java'', ''cpp'', ''csharp'',
      ''go'', ''rust'', ''typescript'', ''php'', ''ruby'', ''swift'', ''kotlin'']"

text \<open>\<open>v.trim()\<close>: only a string has the method.\<close>

fun js_trim :: "jsval \<Rightarrow> js_error + string" where
  "js_trim (JStr s) = Inr (trim s)"
| "js_trim _ = Inl TypeError"

text \<open>
  \<open>v > k\<close> for the values \<open>code.length\<close> can be when the comparison is reached: a
  number, or \<open>undefined\<close> (on \<open>false\<close> and \<open>0\<close>), which compares as \<open>NaN\<close>.
\<close>

fun js_gt :: "jsval \<Rightarrow> int \<Rightarrow> bool" where
  "js_gt (JNum n) k = (n > k)"
| "js_gt _ k = False"

text \<open>\<open>supportedLanguages.includes(v)\<close>: only an equal string is found.\<close>

fun js_includes :: "string list \<Rightarrow> jsval \<Rightarrow> bool" where
  "js_includes xs (JStr s) = (s \<in> set xs)"
| "js_includes xs _ = False"

definition validateInput :: "jsval \<Rightarrow> jsval \<Rightarrow> js_error + validation" where
  "validateInput codeArg language =
     bindE (if \<not> truthy codeArg then Inr True
            else bindE (js_trim codeArg) (\<lambda>t. Inr (length t = 0))) (\<lambda>empty.
     let errors1 = (if empty then [''Code cannot be empty''] else []) in
     bindE (get_prop codeArg ''length'') (\<lambda>len.
     let errors2 =
           (if js_gt len 50000
            then errors1 @ [''Code exceeds maximum length of 50,000 characters'']
            else errors1) in
     bindE (if \<not> js_includes supportedLanguages language
            then bindE (toString language) (\<lambda>s.
                 Inr (errors2 @ [''Unsupported language: '' @ s]))
            else Inr errors2) (\<lambda>errors3.
     Inr \<lparr> isValid = (length errors3 = 0), errors = errors3 \<rparr>)))"

section \<open>The mock provider (the page script)\<close>

definition mockOptimized :: string where
  "mockOptimized =
     ''// Optimized version using modern JavaScript best practices\<newline>'' @
     ''\<newline>'' @
     ''function calculateTotal(items) {\<newline>'' @
     ''    // Validate input\<newline>'' @
     ''    if (!Array.isArray(items)) {\<newline>'' @
     ''        throw new TypeError('Expected items to be an array');\<newline>'' @
     ''    }\<newline>'' @
     ''    \<newline>'' @
     ''    // Use reduce for efficient summation\<newline>'' @
     ''    // This is more declarative and typically better optimized by JS engines\<newline>'' @
     ''    return items.reduce((total, item) => {\<newline>'' @
     ''        // Validate each item has a price property\<newline>'' @
     ''        if (typeof item?.price !== 'number') {\<newline>'' @
     ''            console.warn('Item missing valid price:', item);\<newline>'' @
     ''            return total;\<newline>'' @
     ''        }\<newline>'' @
     ''        return total + item.price;\<newline>'' @
     ''    }, 0);\<newline>'' @
     ''}\<newline>'' @
     ''\<newline>'' @
     ''// Alternative: If you need to filter out invalid items first\<newline>'' @
     ''function calculateTotalWithValidation(items) {\<newline>'' @
     ''    return items\<newline>'' @
     ''        .filter(item => typeof item?.price === 'number')\<newline>'' @
     ''        .reduce((total, item) => total + item.price, 0);\<newline>'' @
     ''}\<newline>'' @
     ''\<newline>'' @
     ''// Example usage:\<newline>'' @
     ''const items = [\<newline>'' @
     ''    { name: 'Item 1', price: 10.99 },\<newline>'' @
     ''    { name: 'Item 2', price: 25.50 },\<newline>'' @
     ''    { name: 'Item 3', price: 5.00 }\<newline>'' @
     ''];\<newline>'' @
     ''\<newline>'' @
     ''console.log(calculateTotal(items)); // 41.49''"

definition getMockAnalysisData :: "jsval \<Rightarrow> jsval \<Rightarrow> report" where
  "getMockAnalysisData codeArg language =
     \<lparr> issues =
        [ \<lparr> title = JStr ''Using var instead of const/let'',
          severity = ''medium'',
          description = JStr ''The var keyword has function scope which can lead to unexpected behavior. Use const for constants and let for variables that need to be reassigned.'',
          location = JStr ''Line 2'',
          code = JStr ''var total = 0;'',
          suggestion = JStr ''Replace var with let or const based on whether the variable is reassigned.'' \<rparr>,
          \<lparr> title = JStr ''Inefficient loop iteration'',
          severity = ''low'',
          description = JStr ''Accessing array.length in every loop iteration is inefficient. Cache the length before the loop.'',
          location = JStr ''Line 3'',
          code = JStr ''for (var i = 0; i < items.length; i++)'',
          suggestion = JStr ''Cache the array length: const len = items.length; for (let i = 0; i < len; i++)'' \<rparr> ],
       security =
        [ \<lparr> title = JStr ''Potential type coercion issue'',
          severity = ''medium'',
          description = JStr ''Using loose equality (==) can lead to unexpected type coercion. Always use strict equality (===) to avoid security vulnerabilities.'',
          location = JStr ''Line 3'',
          code = JStr ''if (value == null)'',
          suggestion = JStr ''Use strict equality: if (value === null)'' \<rparr> ],
       performance =
        [ \<lparr> title = JStr ''Array concatenation in loop'',
          severity = ''medium'',
          description = JStr ''Concatenating values in a loop creates a new array on each iteration, which is inefficient for large datasets.'',
          location = JStr ''Line 3-5'',
          code = JStr ''total = total + items[i].price;'',
          suggestion = JStr ''Use array methods like reduce() for better performance: items.reduce((sum, item) => sum + item.price, 0)'' \<rparr>,
          \<lparr> title = JStr ''Consider using modern array methods'',
          severity = ''low'',
          description = JStr ''Modern array methods like reduce(), map(), and filter() are more declarative and often more performant.'',
          location = JStr ''Line 3-5'',
          code = JStr ''for loop'',
          suggestion = JStr ''Use functional programming approach with reduce() method'' \<rparr> ],
       optimized = JStr mockOptimized,
       stats = \<lparr> issuesCount = JNum 2,
                 securityCount = JNum 1,
                 optimizationsCount = JNum 2,
                 qualityScore = ''B+'' \<rparr> \<rparr>"


section \<open>Notions of the specification\<close>

text \<open>
  The fixed grade ordering of the specification, \<open>A+ > A > B+ > B > C+ > C\<close>, as a
  rank: the source only produces the six strings. A mid-tier grade is one that is
  neither the top nor the bottom of the scale.
\<close>

definition gradeRank :: "string \<Rightarrow> nat option" where
  "gradeRank g =
     map_of [(''C'', 0), (''C+'', 1), (''B'', 2), (''B+'', 3), (''A'', 4), (''A+'', 5)] g"

definition midTier :: "string \<Rightarrow> bool" where
  "midTier g = (case gradeRank g of None \<Rightarrow> False | Some r \<Rightarrow> 0 < r \<and> r < 5)"

text \<open>The explicit report with empty findings and the top grade.\<close>

definition emptyReport :: report where
  "emptyReport =
     \<lparr> issues = [], security = [], performance = [],
       optimized = JStr [],
       stats = \<lparr> issuesCount = JNum 0, securityCount = JNum 0,
                 optimizationsCount = JNum 0, qualityScore = ''A+'' \<rparr> \<rparr>"

text \<open>A finding is about \<open>var\<close> usage when its title mentions the keyword.\<close>

fun mentions :: "string \<Rightarrow> jsval \<Rightarrow> bool" where
  "mentions w (JStr s) = sublist w s"
| "mentions w _ = False"

definition aboutVar :: "finding \<Rightarrow> bool" where
  "aboutVar f = mentions ''var'' (title f)"

text \<open>The input of the specification's end-to-end example.\<close>

definition exampleCode :: string where
  "exampleCode =
     ''var total = 0;\<newline>'' @
     ''for (var i = 0; i < items.length; i++) { total = total + items[i].price; }''"

section \<open>Sample providers and responses\<close>

definition emptyTrace :: trace where
  "emptyTrace = \<lparr> attempts = 0, delays = [], logged = [] \<rparr>"



text \<open>A provider that answers every call with status 503.\<close>

definition alwaysDown :: provider where
  "alwaysDown req k =
     Inr \<lparr> ok = False, status = 503, statusText = ''Service Unavailable'',
           json = Inr (JObj []) \<rparr>"


text \<open>A response whose only finding has a title and no severity.\<close>

definition noSeverityResponse :: jsval where
  "noSeverityResponse =
     JObj [(''issues'', JArr [JObj [(''title'', JStr ''Unused variable'')]])]"

text \<open>A response with two issues, one security finding and no performance list.\<close>

definition sampleResponse :: jsval where
  "sampleResponse =
     JObj [(''issues'',
              JArr [JObj [(''title'', JStr ''Null dereference''),
                          (''severity'', JStr ''HIGH''),
                          (''line'', JNum 12)],
                    JObj [(''message'', JStr ''Unused import''),
                          (''severity'', JStr ''Low''),
                          (''location'', JStr ''Line 1'')]]),
           (''security'',
              JArr [JObj [(''title'', JStr ''SQL injection''),
                          (''severity'', JStr ''high''),
                          (''fix'', JStr ''Use a prepared statement'')]])]"

text \<open>What the normalizer makes of it.\<close>

definition sampleReport :: report where
  "sampleReport =
     \<lparr> issues =
         [\<lparr> title = JStr ''Null dereference'', severity = ''high'',
             description = JUndefined, location = JStr ''Line 12'',
             code = JStr [], suggestion = JStr [] \<rparr>,
          \<lparr> title = JStr ''Unused import'', severity = ''low'',
             description = JUndefined, location = JStr ''Line 1'',
             code = JStr [], suggestion = JStr [] \<rparr>],
       security =
         [\<lparr> title = JStr ''SQL injection'', severity = ''high'',
             description = JUndefined, location = JStr ''Line Unknown'',
             code = JStr [], suggestion = JStr ''Use a prepared statement'' \<rparr>],
       performance = [],
       optimized = JStr [],
       stats = \<lparr> issuesCount = JNum 2, securityCount = JNum 1,
                 optimizationsCount = JNum 0, qualityScore = ''C+'' \<rparr> \<rparr>"


section \<open>Properties of the normalizer\<close>

subsection \<open>Exceptions as values\<close>

lemma bindE_Inr [simp]: "bindE (Inr v) f = f v"
  by (simp add: bindE_def)

lemma bindE_Inl [simp]: "bindE (Inl e) f = Inl e"
  by (simp add: bindE_def)

lemma bindE_eq_Inr: "bindE m f = Inr y \<longleftrightarrow> (\<exists>v. m = Inr v \<and> f v = Inr y)"
  by (cases m) simp_all

lemma mapE_length: "mapE f xs = Inr ys \<Longrightarrow> length ys = length xs"
proof (induction xs arbitrary: ys)
  case Nil
  then show ?case by simp
next
  case (Cons x xs)
  then show ?case by (auto simp: bindE_eq_Inr)
qed

lemma filterE_length: "filterE p xs = Inr ys \<Longrightarrow> length ys \<le> length xs"
proof (induction xs arbitrary: ys)
  case Nil
  then show ?case by simp
next
  case (Cons x xs)
  from Cons.prems obtain b zs where zs: "filterE p xs = Inr zs"
    and ys: "ys = (if b then x # zs else zs)"
    by (auto simp: bindE_eq_Inr)
  from Cons.IH [OF zs] ys show ?case by simp
qed

lemma filterE_defined:
  "filterE p xs = Inr ys \<Longrightarrow> x \<in> set xs \<Longrightarrow> \<exists>b. p x = Inr b"
proof (induction xs arbitrary: ys)
  case Nil
  then show ?case by simp
next
  case (Cons a xs)
  then show ?case by (auto simp: bindE_eq_Inr)
qed

subsection \<open>Collections that survive normalization are arrays\<close>

text \<open>
  \<open>transformIssues\<close> returns only on an array and keeps its length;
  \<open>countSeverity\<close> returns only when all three collections are arrays, since the
  characters a spread string yields have no \<open>severity\<close>.
\<close>

lemma transformIssues_length:
  "transformIssues a = Inr fs \<Longrightarrow> get_prop a ''length'' = Inr (JNum (int (length fs)))"
  by (cases a) (auto simp: transformIssues_def dest: mapE_length)

lemma spread_severity:
  assumes "spread a = Inr xs" "truthy a"
    "\<forall>x \<in> set xs. \<exists>b. bindE (get_prop x ''severity'') (\<lambda>s. bindE (toLowerCase s) (\<lambda>l. Inr (l = sev))) = Inr (b::bool)"
  shows "a = JArr xs"
proof (cases a)
  case (JStr s)
  with assms(2) obtain c cs where "s = c # cs" by (cases s) auto
  with JStr assms(1) have "JStr [c] \<in> set xs" by auto
  with assms(3) show ?thesis by fastforce
qed (use assms(1) in auto)

lemma or_empty_truthy: "or_empty r k = Inr a \<Longrightarrow> truthy a"
  by (auto simp: or_empty_def js_or_def bindE_eq_Inr split: if_splits)

lemma countSeverity_arrays:
  assumes "countSeverity r sev = Inr n"
  shows "\<exists>xs ys zs. or_empty r ''issues'' = Inr (JArr xs)
           \<and> or_empty r ''security'' = Inr (JArr ys)
           \<and> or_empty r ''performance'' = Inr (JArr zs)
           \<and> n \<le> length xs + length ys + length zs"
proof -
  let ?p = "\<lambda>issue. bindE (get_prop issue ''severity'')
              (\<lambda>s. bindE (toLowerCase s) (\<lambda>l. Inr (l = sev)))"
  from assms obtain a xs b ys c zs hits where
    a: "or_empty r ''issues'' = Inr a" "spread a = Inr xs" and
    b: "or_empty r ''security'' = Inr b" "spread b = Inr ys" and
    c: "or_empty r ''performance'' = Inr c" "spread c = Inr zs" and
    hits: "filterE ?p (xs @ ys @ zs) = Inr hits" and n: "n = length hits"
    unfolding countSeverity_def bindE_eq_Inr by blast
  have def: "\<And>x. x \<in> set (xs @ ys @ zs) \<Longrightarrow> \<exists>b. ?p x = Inr b"
    using filterE_defined [OF hits] by blast
  have dx: "\<forall>x \<in> set xs. \<exists>b. ?p x = Inr b" using def by simp
  have dy: "\<forall>x \<in> set ys. \<exists>b. ?p x = Inr b" using def by simp
  have dz: "\<forall>x \<in> set zs. \<exists>b. ?p x = Inr b" using def by simp
  have "a = JArr xs"
    by (rule spread_severity [OF a(2) or_empty_truthy [OF a(1)] dx])
  moreover have "b = JArr ys"
    by (rule spread_severity [OF b(2) or_empty_truthy [OF b(1)] dy])
  moreover have "c = JArr zs"
    by (rule spread_severity [OF c(2) or_empty_truthy [OF c(1)] dz])
  moreover have "n \<le> length xs + length ys + length zs"
    using filterE_length [OF hits] n by simp
  ultimately show ?thesis using a(1) b(1) c(1) by blast
qed

text \<open>
  Every grade \<open>calculateQualityScore\<close> returns is the grade of a pair (count of
  high-severity findings, total count) with the first at most the second.
\<close>

lemma calculateQualityScore_scoreOf:
  assumes "calculateQualityScore r = Inr g"
  shows "\<exists>h t. h \<le> t \<and> g = scoreOf h t"
proof -
  from assms obtain a b c h m where
    a: "or_empty r ''issues'' = Inr a" and b: "or_empty r ''security'' = Inr b" and
    c: "or_empty r ''performance'' = Inr c" and
    h: "countSeverity r ''high'' = Inr h" and
    g: "g = scoreOf h (length_of a + length_of b + length_of c)"
    unfolding calculateQualityScore_def bindE_eq_Inr Let_def by auto
  from countSeverity_arrays [OF h] a b c
  have "h \<le> length_of a + length_of b + length_of c" by auto
  with g show ?thesis by blast
qed

section \<open>Properties of the retry loop\<close>


text \<open>When every call fails, the loop throws after using up the calls it has left.\<close>

lemma retryLoop_exhausted:
  assumes "\<forall>k. \<exists>e. tryFetch fetch req k = Inl e"
  shows "\<exists>e tr'. retryLoop this fetch req attempt lastError tr = (Inl e, tr')
           \<and> attempts tr' = attempts tr + nat (maxRetries (retryConfig this) + 1 - int attempt)
           \<and> logged tr' = logged tr"
  using assms
proof (induction this fetch req attempt lastError tr rule: retryLoop.induct)
  case (1 this fetch req attempt lastError tr)
  note fails = "1.prems"
  show ?case
  proof (cases "int attempt \<le> maxRetries (retryConfig this)")
    case False
    then show ?thesis by (subst retryLoop.simps) simp
  next
    case True
    from fails obtain e where e: "tryFetch fetch req attempt = Inl e" by blast
    let ?tr = "if int attempt < maxRetries (retryConfig this)
               then tr\<lparr>attempts := Suc (attempts tr),
                       delays := delays tr
                         @ [retryDelay (retryConfig this) * (int attempt + 1)]\<rparr>
               else tr\<lparr>attempts := Suc (attempts tr)\<rparr>"
    from "1.IH" [OF True e fails] obtain e' tr' where
      r: "retryLoop this fetch req (Suc attempt) (Some e) ?tr = (Inl e', tr')" and
      a: "attempts tr' = attempts ?tr + nat (maxRetries (retryConfig this) + 1 - int (Suc attempt))" and
      l: "logged tr' = logged ?tr"
      by blast
    have "retryLoop this fetch req attempt lastError tr = (Inl e', tr')"
      by (subst retryLoop.simps) (simp add: True e r)
    moreover have "attempts tr' = attempts tr + nat (maxRetries (retryConfig this) + 1 - int attempt)"
      using a True by (simp split: if_splits)
    moreover have "logged tr' = logged tr" using l by (simp split: if_splits)
    ultimately show ?thesis by blast
  qed
qed


section \<open>Properties of input validation\<close>

text \<open>
  With a string as code, a language that has no string conversion always makes
  \<open>validateInput\<close> throw: such a value is no supported language, so it is
  interpolated into the message.
\<close>

lemma validateInput_unconvertible_language:
  assumes "\<not> stringable language"
  shows "validateInput (JStr s) language = Inl TypeError"
proof -
  from assms have "\<not> js_includes supportedLanguages language"
    by (cases language) auto
  with assms show ?thesis
    by (simp add: validateInput_def toString_def Let_def)
qed

section \<open>The claims\<close>

text \<open>
  C1. The normalizer is claimed to return a report for every provider response,
  partially populated findings included. A finding that has a title but no severity
  makes \<open>issue.severity.toLowerCase()\<close> throw, and \<open>transformResponse\<close> ends with
  that \<open>TypeError\<close> instead of a report.
\<close>

theorem transformResponse_missing_severity:
  "transformResponse noSeverityResponse = Inl TypeError"
  by (simp add: noSeverityResponse_def transformResponse_def or_empty_def js_or_def
      transformIssues_def transformIssue_def)

text \<open>
  C2. The quality-score mapping is total and monotonic: every pair (high-severity
  count, total count) with the first at most the second gets one of the six grades,
  no findings give \<open>A+\<close>, and a pair that is component-wise at least another never
  gets a better grade than the other.
\<close>

theorem scoreOf_total_monotonic:
  assumes "h1 \<le> t1" and "h2 \<le> t2" and "h2 \<le> h1" and "t2 \<le> t1"
  shows "scoreOf h1 0 = ''A+''
       \<and> (\<exists>r1 r2. gradeRank (scoreOf h1 t1) = Some r1
                 \<and> gradeRank (scoreOf h2 t2) = Some r2 \<and> r1 \<le> r2)"
  using assms by (auto simp: scoreOf_def gradeRank_def)

theorem scoreOf_total_monotonic_witness:
  "scoreOf 1 0 = ''A+''
     \<and> (\<exists>r1 r2. gradeRank (scoreOf 1 9) = Some r1
               \<and> gradeRank (scoreOf 0 3) = Some r2 \<and> r1 \<le> r2)"
  using scoreOf_total_monotonic [of 1 9 0 3] by simp




text \<open>
  C4. Round trip with the empty report: a provider response in which the three
  collections and the optimized code are absent is normalized to exactly the explicit
  report with empty findings, empty optimized text, zero counts and the grade \<open>A+\<close>.
\<close>

theorem transformResponse_minimal:
  assumes "map_of kvs ''issues'' = None" and "map_of kvs ''security'' = None"
    and "map_of kvs ''performance'' = None" and "map_of kvs ''optimizedCode'' = None"
  shows "transformResponse (JObj kvs) = Inr emptyReport"
  using assms
  by (simp add: transformResponse_def calculateQualityScore_def countSeverity_def
      or_empty_def js_or_def transformIssues_def scoreOf_def emptyReport_def)

theorem transformResponse_minimal_witness:
  "transformResponse (JObj []) = Inr emptyReport"
  using transformResponse_minimal [of "[]"] by simp

text \<open>
  C5. When every attempt fails, \<open>analyzeCode\<close> throws the one error with the message
  for the user and returns no report; the loop has then made all the calls the
  configuration allows, and the cause was written to the console once.
\<close>

theorem analyzeCode_retry_exhaustion:
  assumes "\<forall>k. \<exists>e. tryFetch fetch
             (requestOf this ''/analyze'' (analyzeOptions codeArg language)) k = Inl e"
  shows "fst (analyzeCode this fetch codeArg language tr) =
           Inl (JsError ''Failed to analyze code. Please try again.'')
       \<and> attempts (snd (analyzeCode this fetch codeArg language tr)) =
           attempts tr + nat (maxRetries (retryConfig this) + 1)
       \<and> length (logged (snd (analyzeCode this fetch codeArg language tr))) =
           length (logged tr) + 1"
proof -
  from retryLoop_exhausted [OF assms, of this 0 None tr] obtain e tr' where
    r: "makeRequest this fetch ''/analyze'' (analyzeOptions codeArg language) tr = (Inl e, tr')"
    and a: "attempts tr' = attempts tr + nat (maxRetries (retryConfig this) + 1)"
    and l: "logged tr' = logged tr"
    unfolding makeRequest_def by auto
  show ?thesis by (simp add: analyzeCode_def r a l)
qed

theorem analyzeCode_retry_exhaustion_witness:
  "fst (analyzeCode CONFIG alwaysDown (JStr exampleCode) (JStr ''javascript'') emptyTrace) =
     Inl (JsError ''Failed to analyze code. Please try again.'')
   \<and> attempts (snd (analyzeCode CONFIG alwaysDown (JStr exampleCode) (JStr ''javascript'')
        emptyTrace)) = 4
   \<and> length (logged (snd (analyzeCode CONFIG alwaysDown (JStr exampleCode)
        (JStr ''javascript'') emptyTrace))) = 1"
  using analyzeCode_retry_exhaustion [of alwaysDown CONFIG "JStr exampleCode"
      "JStr ''javascript''" emptyTrace]
  by (simp add: alwaysDown_def tryFetch_def CONFIG_def emptyTrace_def)

text \<open>
  C6. Validation reports every violated constraint at once. For a code string that
  is empty or blank after trimming, or longer than 50000 characters, and any language
  tag, \<open>validateInput\<close> rejects, and its error list names the emptiness violation,
  the length violation and the unsupported language, each exactly when it holds.
\<close>

theorem validateInput_reports_every_violation:
  assumes "trim c = [] \<or> 50000 < length c"
  shows "validateInput (JStr c) (JStr l) =
           Inr \<lparr> isValid = False,
                 errors =
                   (if trim c = [] then [''Code cannot be empty''] else [])
                   @ (if 50000 < length c
                      then [''Code exceeds maximum length of 50,000 characters''] else [])
                   @ (if l \<in> set supportedLanguages then []
                      else [''Unsupported language: '' @ l]) \<rparr>"
proof -
  have "c = [] \<Longrightarrow> trim c = []" by (simp add: trim_def)
  then show ?thesis
    using assms by (auto simp: validateInput_def toString_def Let_def)
qed

theorem validateInput_reports_every_violation_witness:
  "validateInput (JStr (replicate 50001 CHR '' '')) (JStr ''cobol'') =
     Inr \<lparr> isValid = False,
           errors = [''Code cannot be empty'',
                     ''Code exceeds maximum length of 50,000 characters'',
                     ''Unsupported language: cobol''] \<rparr>"
  using validateInput_reports_every_violation [of "replicate 50001 CHR '' ''" "''cobol''"]
  by (simp add: trim_def js_space_def supportedLanguages_def)

text \<open>
  C7. The mock provider is a constant function: whatever code and language it is
  given, \<open>getMockAnalysisData\<close> returns the same report.
\<close>

theorem getMockAnalysisData_constant:
  "getMockAnalysisData code1 language1 = getMockAnalysisData code2 language2"
  by (simp add: getMockAnalysisData_def)

text \<open>
  C8. For the example input and the language \<open>javascript\<close>, the report has a finding
  about \<open>var\<close> usage among its issues, and its quality score is \<open>B+\<close>, a mid-tier grade
  and not the top grade.
\<close>

theorem getMockAnalysisData_example:
  "list_ex aboutVar (issues (getMockAnalysisData (JStr exampleCode) (JStr ''javascript'')))
   \<and> qualityScore (stats (getMockAnalysisData (JStr exampleCode) (JStr ''javascript''))) = ''B+''
   \<and> midTier (qualityScore (stats (getMockAnalysisData (JStr exampleCode) (JStr ''javascript''))))
   \<and> qualityScore (stats (getMockAnalysisData (JStr exampleCode) (JStr ''javascript''))) \<noteq> ''A+''"
proof -
  have "sublist ''var'' ''Using var instead of const/let''" by code_simp
  then show ?thesis
    by (simp add: getMockAnalysisData_def aboutVar_def midTier_def gradeRank_def)
qed

text \<open>
  C9. In every report that \<open>transformResponse\<close> produces, the three counts of the
  summary are the lengths of the three sequences of findings.
\<close>

theorem transformResponse_counts:
  assumes "transformResponse r = Inr rep"
  shows "issuesCount (stats rep) = JNum (int (length (issues rep)))
       \<and> securityCount (stats rep) = JNum (int (length (security rep)))
       \<and> optimizationsCount (stats rep) = JNum (int (length (performance rep)))"
proof -
  from assms obtain a fs b ss c ps oc n1 n2 n3 q where
    i: "transformIssues a = Inr fs" "get_prop a ''length'' = Inr n1" and
    s: "transformIssues b = Inr ss" "get_prop b ''length'' = Inr n2" and
    p: "transformIssues c = Inr ps" "get_prop c ''length'' = Inr n3" and
    rep: "rep = \<lparr> issues = fs, security = ss, performance = ps,
                   optimized = js_or oc (JStr ''''),
                   stats = \<lparr> issuesCount = n1, securityCount = n2,
                             optimizationsCount = n3, qualityScore = q \<rparr> \<rparr>"
    unfolding transformResponse_def bindE_eq_Inr by blast
  from i s p show ?thesis
    by (auto simp: rep dest!: transformIssues_length)
qed

theorem transformResponse_counts_witness:
  "transformResponse sampleResponse = Inr sampleReport
     \<and> issuesCount (stats sampleReport) = JNum (int (length (issues sampleReport)))
     \<and> securityCount (stats sampleReport) = JNum (int (length (security sampleReport)))
     \<and> optimizationsCount (stats sampleReport) =
         JNum (int (length (performance sampleReport)))"
proof -
  have h: "transformResponse sampleResponse = Inr sampleReport" by code_simp
  show ?thesis using h transformResponse_counts [OF h] by simp
qed




end
